theory Spec2Isabelle
  imports Complex_Main
begin

section \<open>The YOLOv8 detection API (\<open>src/api/main.py\<close>)\<close>

text \<open>
  The request handlers of \<open>src/api/main.py\<close> are embedded as functions over an explicit
  environment (the module globals and the external libraries the handlers call) and an
  explicit world (the file system and the trace of observable effects).

  Python floats are modelled by \<open>real\<close>: the finite values are covered, NaN and the
  infinities are not. Everything the handlers get from PIL, ultralytics and the operating
  system is a field of the environment; a call that can raise returns \<open>string + 'a\<close>,
  with \<open>Inl\<close> carrying \<open>str(e)\<close> of the exception raised.
\<close>

subsection \<open>Python primitives used by the handlers\<close>

text \<open>\<open>int(x)\<close> on a float truncates towards zero.\<close>

definition py_int :: "real \<Rightarrow> int" where
  "py_int x = (if 0 \<le> x then \<lfloor>x\<rfloor> else \<lceil>x\<rceil>)"

text \<open>
  \<open>round(x, 2)\<close>: the nearest multiple of \<open>1/100\<close>, a tie going to the even multiple
  (Python 3 rounds the exact value of the float half to even).
\<close>

definition round_half_even :: "real \<Rightarrow> int" where
  "round_half_even x =
     (let f = \<lfloor>x\<rfloor>; d = x - of_int f
      in if d < 1 / 2 then f else if 1 / 2 < d then f + 1
         else if even f then f else f + 1)"

definition py_round2 :: "real \<Rightarrow> real" where
  "py_round2 x = of_int (round_half_even (x * 100)) / 100"

text \<open>\<open>str(n)\<close> for an integer, needed for \<open>str(KeyError(n))\<close>.\<close>

definition digit_char :: "nat \<Rightarrow> char" where
  "digit_char d = ''0123456789'' ! d"

fun str_nat :: "nat \<Rightarrow> string" where
  "str_nat n = (if n < 10 then [digit_char n] else str_nat (n div 10) @ [digit_char (n mod 10)])"

declare str_nat.simps [simp del]

definition str_int :: "int \<Rightarrow> string" where
  "str_int i = (if i < 0 then CHR ''-'' # str_nat (nat (- i)) else str_nat (nat i))"





text \<open>\<open>os.getenv(key, default)\<close> over the process environment.\<close>

definition getenv :: "(string \<rightharpoonup> string) \<Rightarrow> string \<Rightarrow> string \<Rightarrow> string" where
  "getenv environ key dflt = (case environ key of None \<Rightarrow> dflt | Some v \<Rightarrow> v)"

text \<open>\<open>os.path.join(a, b)\<close> for a relative second component (POSIX).\<close>

definition path_join :: "string \<Rightarrow> string \<Rightarrow> string" where
  "path_join a b = (if a = [] \<or> last a = CHR ''/'' then a @ b else a @ ''/'' @ b)"

subsection \<open>Data\<close>

text \<open>\<open>HTTPException(status_code, detail)\<close>, the only exception a handler lets out.\<close>

datatype HTTPException = HTTPException (status_code: nat) (detail: string)

text \<open>
  The exceptions that can occur inside the \<open>try\<close> block of \<open>detect_objects\<close>: an
  \<open>HTTPException\<close> raised by the handler itself, the \<open>KeyError\<close> of \<open>result.names[class_id]\<close>,
  the \<open>IndexError\<close> of \<open>results[0]\<close>, and whatever an external call raises.
\<close>

datatype py_exception = Http HTTPException | KeyError int | IndexError | Raised string

fun str_exc :: "py_exception \<Rightarrow> string" where
  "str_exc (Http h) = detail h"
| "str_exc (KeyError k) = str_int k"
| "str_exc IndexError = ''list index out of range''"
| "str_exc (Raised msg) = msg"

text \<open>One element of \<open>result.boxes\<close>: \<open>box.xyxy[0]\<close>, \<open>box.conf[0]\<close> and \<open>box.cls[0]\<close>.\<close>

record raw_box =
  xyxy :: "real \<times> real \<times> real \<times> real"
  conf :: real
  cls :: real

text \<open>
  One element of the list the model call returns: its boxes, its \<open>names\<close> dictionary and
  the array that \<open>plot()\<close> renders.
\<close>

record 'arr result =
  boxes :: "raw_box list"
  names :: "int \<rightharpoonup> string"
  plot :: 'arr

text \<open>An entry of \<open>detections\<close> and the JSON body of a successful response.\<close>

record detection =
  box :: "int list"
  label :: string
  score :: real

record response =
  detections :: "detection list"
  summary :: "string \<rightharpoonup> int"

text \<open>The four logging calls of \<open>detect_objects\<close>, with the values they format.\<close>

datatype log_record =
    Info_running_detection real
  | Info_annotated_saved string
  | Info_detection_complete nat
  | Error_during_detection string

text \<open>
  The observable effects of a request, in the order they happen: the call of the model,
  the call of \<open>annotated_pil.save(output_path)\<close>, and the log lines.
\<close>

datatype ('img, 'arr) event =
    Detector_invoked 'img real
  | Sink_invoked 'arr string
  | Logged log_record

record ('img, 'arr, 'fs) world =
  fs :: 'fs
  trace :: "('img, 'arr) event list"

text \<open>
  The module globals and the libraries. \<open>model\<close> is the global of that name: \<open>None\<close>
  until \<open>startup_event\<close> has stored the loaded model. \<open>save\<close> is \<open>Image.fromarray(a).save(path)\<close>
  on the file system: it returns \<open>Some (str(e))\<close> when the call raises and \<open>None\<close> when it
  returns, and in both cases the file system the call leaves behind. A call that raises may
  have changed the file system: PIL opens the target for writing, which truncates an existing
  file, before it encodes the image.
\<close>

record ('img, 'arr, 'fs) env =
  environ :: "string \<rightharpoonup> string"
  model :: "('img \<Rightarrow> real \<Rightarrow> string + 'arr result list) option"
  Image_open :: "string \<Rightarrow> string + 'img"
  mode :: "'img \<Rightarrow> string"
  convert :: "'img \<Rightarrow> string \<Rightarrow> string + 'img"
  save :: "'arr \<Rightarrow> string \<Rightarrow> 'fs \<Rightarrow> string option \<times> 'fs"

subsection \<open>Configuration from environment variables\<close>

definition MODEL_PATH :: "('img, 'arr, 'fs) env \<Rightarrow> string" where
  "MODEL_PATH env = getenv (environ env) ''MODEL_PATH'' ''/app/models/yolov8n.pt''"

definition OUTPUT_DIR :: "('img, 'arr, 'fs) env \<Rightarrow> string" where
  "OUTPUT_DIR env = getenv (environ env) ''OUTPUT_DIR'' ''/app/output''"


subsection \<open>\<open>GET /health\<close>\<close>

definition health_check ::
  "('img, 'arr, 'fs) env \<Rightarrow> ('img, 'arr, 'fs) world \<Rightarrow> (string \<times> string) list \<times> ('img, 'arr, 'fs) world"
where
  "health_check env s = ([(''status'', ''ok'')], s)"

subsection \<open>\<open>POST /detect\<close>\<close>

text \<open>Lines 76 to 87: read the upload, open it, convert it to RGB if necessary.\<close>

definition read_image :: "('img, 'arr, 'fs) env \<Rightarrow> string \<Rightarrow> py_exception + 'img" where
  "read_image env image_bytes =
     (case Image_open env image_bytes of
        Inl e \<Rightarrow> Inl (Http (HTTPException 400 (''Invalid image file: '' @ e)))
      | Inr img \<Rightarrow>
          if mode env img \<noteq> ''RGB'' then
            (case convert env img ''RGB'' of
               Inl e \<Rightarrow> Inl (Http (HTTPException 400 (''Invalid image file: '' @ e)))
             | Inr img' \<Rightarrow> Inr img')
          else Inr img)"

text \<open>\<open>class_counts[label] += 1\<close> on a \<open>defaultdict(int)\<close>.\<close>

definition increment :: "(string \<rightharpoonup> int) \<Rightarrow> string \<Rightarrow> (string \<rightharpoonup> int)" where
  "increment class_counts l =
     class_counts(l \<mapsto> (case class_counts l of None \<Rightarrow> 0 | Some c \<Rightarrow> c) + 1)"

text \<open>Lines 101 to 120: the loop over the boxes of one result.\<close>

fun boxes_loop ::
  "(int \<rightharpoonup> string) \<Rightarrow> raw_box list \<Rightarrow> detection list \<times> (string \<rightharpoonup> int)
     \<Rightarrow> py_exception + detection list \<times> (string \<rightharpoonup> int)"
where
  "boxes_loop nm [] acc = Inr acc"
| "boxes_loop nm (b # bs) (dets, class_counts) =
     (case xyxy b of
        (x_min, y_min, x_max, y_max) \<Rightarrow>
          (let sc = conf b; class_id = py_int (cls b)
           in case nm class_id of
                None \<Rightarrow> Inl (KeyError class_id)
              | Some l \<Rightarrow>
                  boxes_loop nm bs
                    (dets @ [\<lparr>box = [py_int x_min, py_int y_min, py_int x_max, py_int y_max],
                              label = l, score = py_round2 sc\<rparr>],
                     increment class_counts l)))"

text \<open>Lines 98 to 120: the loop over the results.\<close>

fun results_loop ::
  "'arr result list \<Rightarrow> detection list \<times> (string \<rightharpoonup> int)
     \<Rightarrow> py_exception + detection list \<times> (string \<rightharpoonup> int)"
where
  "results_loop [] acc = Inr acc"
| "results_loop (r # rs) acc =
     (case boxes_loop (names r) (boxes r) acc of
        Inl e \<Rightarrow> Inl e
      | Inr acc' \<Rightarrow> results_loop rs acc')"

text \<open>Lines 68 to 140: the body of the \<open>try\<close> block, for a loaded model \<open>m\<close>.\<close>

definition try_body ::
  "('img, 'arr, 'fs) env \<Rightarrow> ('img \<Rightarrow> real \<Rightarrow> string + 'arr result list) \<Rightarrow> string \<Rightarrow> real
     \<Rightarrow> ('img, 'arr, 'fs) world \<Rightarrow> (py_exception + response) \<times> ('img, 'arr, 'fs) world"
where
  "try_body env m image_bytes confidence_threshold s =
     (if \<not> (0 \<le> confidence_threshold \<and> confidence_threshold \<le> 1) then
        (Inl (Http (HTTPException 400 ''confidence_threshold must be between 0.0 and 1.0'')), s)
      else
        case read_image env image_bytes of
          Inl e \<Rightarrow> (Inl e, s)
        | Inr img \<Rightarrow>
            (let s1 = s\<lparr>trace := trace s @ [Logged (Info_running_detection confidence_threshold),
                                             Detector_invoked img confidence_threshold]\<rparr>
             in case m img confidence_threshold of
                  Inl e \<Rightarrow> (Inl (Raised e), s1)
                | Inr results \<Rightarrow>
                    (case results_loop results ([], Map.empty) of
                       Inl e \<Rightarrow> (Inl e, s1)
                     | Inr (dets, class_counts) \<Rightarrow>
                         (case results of
                            [] \<Rightarrow> (Inl IndexError, s1)
                          | r0 # _ \<Rightarrow>
                              (let output_path = path_join (OUTPUT_DIR env) ''last_annotated.jpg'';
                                   annotated_img = plot r0;
                                   s2 = s1\<lparr>trace := trace s1 @ [Sink_invoked annotated_img output_path]\<rparr>
                               in case save env annotated_img output_path (fs s2) of
                                    (Some e, fs') \<Rightarrow> (Inl (Raised e), s2\<lparr>fs := fs'\<rparr>)
                                  | (None, fs') \<Rightarrow>
                                      (Inr \<lparr>detections = dets, summary = class_counts\<rparr>,
                                       s2\<lparr>fs := fs',
                                          trace := trace s2 @
                                            [Logged (Info_annotated_saved output_path),
                                             Logged (Info_detection_complete (length dets))]\<rparr>))))))"

text \<open>Lines 142 to 146: the two \<open>except\<close> clauses.\<close>

fun except_clauses ::
  "py_exception \<Rightarrow> ('img, 'arr, 'fs) world \<Rightarrow> HTTPException \<times> ('img, 'arr, 'fs) world"
where
  "except_clauses (Http h) s = (h, s)"
| "except_clauses e s =
     (HTTPException 500 (''Detection failed: '' @ str_exc e),
      s\<lparr>trace := trace s @ [Logged (Error_during_detection (str_exc e))]\<rparr>)"

text \<open>The handler: \<open>Inl\<close> is the \<open>HTTPException\<close> raised, \<open>Inr\<close> the body of the 200 response.\<close>

definition detect_objects ::
  "('img, 'arr, 'fs) env \<Rightarrow> string \<Rightarrow> real \<Rightarrow> ('img, 'arr, 'fs) world
     \<Rightarrow> (HTTPException + response) \<times> ('img, 'arr, 'fs) world"
where
  "detect_objects env image_bytes confidence_threshold s =
     (case model env of
        None \<Rightarrow> (Inl (HTTPException 503 ''Model not loaded''), s)
      | Some m \<Rightarrow>
          (case try_body env m image_bytes confidence_threshold s of
             (Inl e, s') \<Rightarrow> (case except_clauses e s' of (h, s'') \<Rightarrow> (Inl h, s''))
           | (Inr r, s') \<Rightarrow> (Inr r, s')))"


subsection \<open>The Detector of the specification\<close>

text \<open>
  Modelled from the spec: the Detector of section 4.2. The object that \<open>detect_objects\<close>
  calls as \<open>model(img, conf=confidence_threshold)\<close> is an ultralytics \<open>YOLO\<close> instance, whose
  code is not under \<open>src/\<close>. The specification says of it: it runs the forward pass over the
  buffer, retains only the candidates whose confidence score is at least the threshold
  (inclusive at the boundary), yields for each a box, a class identifier and a score, returns
  a class-id to label lookup and an annotation overlay of the same filtered set, and fails on
  an inference failure. The forward pass, the lookup and the renderer are parameters.
\<close>

definition infer ::
  "('img \<Rightarrow> string + raw_box list) \<Rightarrow> (int \<rightharpoonup> string) \<Rightarrow> ('img \<Rightarrow> raw_box list \<Rightarrow> 'arr)
     \<Rightarrow> 'img \<Rightarrow> real \<Rightarrow> string + 'arr result list"
where
  "infer forward_pass lookup render img threshold =
     (case forward_pass img of
        Inl e \<Rightarrow> Inl e
      | Inr candidates \<Rightarrow>
          (let kept = filter (\<lambda>c. threshold \<le> conf c) candidates
           in Inr [\<lparr>boxes = kept, names = lookup, plot = render img kept\<rparr>]))"

subsection \<open>Notions used in the statements\<close>

text \<open>The number of detections of a list whose \<open>label\<close> field is \<open>l\<close>.\<close>

definition count_label :: "detection list \<Rightarrow> string \<Rightarrow> int" where
  "count_label ds l = int (length (filter (\<lambda>d. label d = l) ds))"

text \<open>\<open>cc\<close> holds, for exactly the labels of \<open>ds\<close>, their number of occurrences in \<open>ds\<close>.\<close>

definition tallies :: "detection list \<Rightarrow> (string \<rightharpoonup> int) \<Rightarrow> bool" where
  "tallies ds cc = (\<forall>l. cc l = (if l \<in> label ` set ds then Some (count_label ds l) else None))"

text \<open>
  The detection \<open>d\<close> is the record the loop body builds from the box \<open>b\<close> under the
  dictionary \<open>nm\<close>.
\<close>

definition reports :: "(int \<rightharpoonup> string) \<Rightarrow> detection \<Rightarrow> raw_box \<Rightarrow> bool" where
  "reports nm d b =
     (box d = (case xyxy b of (x_min, y_min, x_max, y_max) \<Rightarrow>
                 [py_int x_min, py_int y_min, py_int x_max, py_int y_max])
      \<and> nm (py_int (cls b)) = Some (label d)
      \<and> score d = py_round2 (conf b))"



text \<open>The events a request has added to the trace.\<close>

definition new_events ::
  "('img, 'arr, 'fs) world \<Rightarrow> ('img, 'arr, 'fs) world \<Rightarrow> ('img, 'arr) event list" where
  "new_events s s' = drop (length (trace s)) (trace s')"

subsection \<open>Example environments\<close>

text \<open>
  Three candidates of a forward pass, scoring 0.9, exactly 0.25 and 0.1, with the lookup
  of their classes; images are identified with their bytes, an annotated image with the
  number of boxes drawn on it, and the file system maps a path to what was saved there.
\<close>

definition demo_candidates :: "raw_box list" where
  "demo_candidates =
     [\<lparr>xyxy = (107 / 10, 202 / 10, 1109 / 10, 2205 / 10), conf = 9 / 10, cls = 0\<rparr>,
      \<lparr>xyxy = (11 / 2, 13 / 2, 101 / 2, 121 / 2), conf = 1 / 4, cls = 16\<rparr>,
      \<lparr>xyxy = (3 / 2, 5 / 2, 7 / 2, 9 / 2), conf = 1 / 10, cls = 0\<rparr>]"

definition demo_names :: "int \<rightharpoonup> string" where
  "demo_names = [0 \<mapsto> ''person'', 16 \<mapsto> ''dog'']"

definition demo_model :: "string \<Rightarrow> real \<Rightarrow> string + nat result list" where
  "demo_model = infer (\<lambda>img. Inr demo_candidates) demo_names (\<lambda>img kept. length kept)"

definition demo_env :: "(string, nat, string \<rightharpoonup> nat) env" where
  "demo_env =
     \<lparr>environ = Map.empty,
      model = Some demo_model,
      Image_open = (\<lambda>b. if b = [] then Inl ''cannot identify image file'' else Inr b),
      mode = (\<lambda>img. ''RGB''),
      convert = (\<lambda>img m. Inr img),
      save = (\<lambda>a p f. (None, f(p \<mapsto> a)))\<rparr>"

text \<open>The same process before the model is loaded.\<close>

definition unloaded_env :: "(string, nat, string \<rightharpoonup> nat) env" where
  "unloaded_env = demo_env\<lparr>model := None\<rparr>"

text \<open>The same process with an output directory that cannot be written.\<close>

definition readonly_env :: "(string, nat, string \<rightharpoonup> nat) env" where
  "readonly_env = demo_env\<lparr>save := (\<lambda>a p f. (Some ''Permission denied'', f))\<rparr>"


text \<open>The same process started with \<open>CONFIDENCE_THRESHOLD_DEFAULT=0.5\<close>.\<close>

definition half_env :: "(string, nat, string \<rightharpoonup> nat) env" where
  "half_env = demo_env\<lparr>environ := [''CONFIDENCE_THRESHOLD_DEFAULT'' \<mapsto> ''0.5'']\<rparr>"

text \<open>The same process on a full disk: the failed write leaves the target file removed.\<close>

definition full_disk_env :: "(string, nat, string \<rightharpoonup> nat) env" where
  "full_disk_env =
     demo_env\<lparr>save := (\<lambda>a p f. (Some ''No space left on device'', f(p := None)))\<rparr>"

definition world0 :: "(string, nat, string \<rightharpoonup> nat) world" where
  "world0 = \<lparr>fs = Map.empty, trace = []\<rparr>"

text \<open>The two detections that \<open>demo_env\<close> reports at the threshold 0.25.\<close>

definition demo_detections :: "detection list" where
  "demo_detections =
     [\<lparr>box = [10, 20, 110, 220], label = ''person'', score = 9 / 10\<rparr>,
      \<lparr>box = [5, 6, 50, 60], label = ''dog'', score = 1 / 4\<rparr>]"

text \<open>What \<open>demo_env\<close> answers and leaves behind at the threshold 0.25, from \<open>world0\<close>.\<close>

definition demo_response :: response where
  "demo_response = \<lparr>detections = demo_detections, summary = [''person'' \<mapsto> 1, ''dog'' \<mapsto> 1]\<rparr>"

definition demo_world1 :: "(string, nat, string \<rightharpoonup> nat) world" where
  "demo_world1 =
     \<lparr>fs = [''/app/output/last_annotated.jpg'' \<mapsto> 2],
      trace =
        [Logged (Info_running_detection (1 / 4)),
         Detector_invoked ''img'' (1 / 4),
         Sink_invoked 2 ''/app/output/last_annotated.jpg'',
         Logged (Info_annotated_saved ''/app/output/last_annotated.jpg''),
         Logged (Info_detection_complete 2)]\<rparr>"

section \<open>Proofs\<close>

lemmas demo_defs = demo_env_def demo_model_def demo_candidates_def demo_names_def world0_def
  unloaded_env_def readonly_env_def half_env_def demo_detections_def demo_response_def
  demo_world1_def

lemmas handler_defs = detect_objects_def try_body_def read_image_def infer_def OUTPUT_DIR_def
  getenv_def path_join_def py_int_def py_round2_def round_half_even_def increment_def Let_def

lemma demo_run:
  "detect_objects demo_env ''img'' (1 / 4) world0 = (Inr demo_response, demo_world1)"
  by (simp add: demo_defs handler_defs numeral_2_eq_2)

lemma tallies_empty: "tallies [] Map.empty"
  by (simp add: tallies_def)

lemma tallies_step:
  "tallies ds cc \<Longrightarrow> label d = l \<Longrightarrow> tallies (ds @ [d]) (increment cc l)"
  by (auto simp: tallies_def increment_def count_label_def image_iff filter_empty_conv)

lemma boxes_loop_Cons:
  assumes "boxes_loop nm (b # bs) (ds, cc) = Inr acc"
  obtains d where "reports nm d b"
    and "boxes_loop nm bs (ds @ [d], increment cc (label d)) = Inr acc"
proof -
  obtain x_min y_min x_max y_max where xy: "xyxy b = (x_min, y_min, x_max, y_max)"
    by (cases "xyxy b") auto
  from assms xy obtain l where l: "nm (py_int (cls b)) = Some l"
    by (auto simp: Let_def split: option.splits)
  let ?d = "\<lparr>box = [py_int x_min, py_int y_min, py_int x_max, py_int y_max],
             label = l, score = py_round2 (conf b)\<rparr>"
  from assms xy l
  have "boxes_loop nm bs (ds @ [?d], increment cc (label ?d)) = Inr acc"
    by (simp add: Let_def)
  moreover have "reports nm ?d b"
    using xy l by (simp add: reports_def)
  ultimately show thesis using that by blast
qed

lemma boxes_loop_error:
  "boxes_loop nm bs acc = Inl e \<Longrightarrow> \<exists>k. e = KeyError k"
proof (induction nm bs acc rule: boxes_loop.induct)
  case (1 nm acc)
  then show ?case by simp
next
  case (2 nm b bs dets class_counts)
  then show ?case
    by (auto simp: Let_def split: prod.splits option.splits)
qed

lemma results_loop_error:
  "results_loop rs acc = Inl e \<Longrightarrow> \<exists>k. e = KeyError k"
proof (induction rs arbitrary: acc)
  case Nil
  then show ?case by simp
next
  case (Cons r rs)
  then show ?case
    by (auto split: sum.splits dest: boxes_loop_error)
qed

lemma boxes_loop_tallies:
  "boxes_loop nm bs (ds, cc) = Inr (ds', cc') \<Longrightarrow> tallies ds cc \<Longrightarrow> tallies ds' cc'"
proof (induction bs arbitrary: ds cc)
  case Nil
  then show ?case by simp
next
  case (Cons b bs)
  from Cons.prems(1) obtain d
    where run: "boxes_loop nm bs (ds @ [d], increment cc (label d)) = Inr (ds', cc')"
    by (rule boxes_loop_Cons)
  have "tallies (ds @ [d]) (increment cc (label d))"
    using Cons.prems(2) by (rule tallies_step) simp
  with run show ?case by (rule Cons.IH)
qed

lemma results_loop_tallies:
  "results_loop rs (ds, cc) = Inr (ds', cc') \<Longrightarrow> tallies ds cc \<Longrightarrow> tallies ds' cc'"
proof (induction rs arbitrary: ds cc)
  case Nil
  then show ?case by simp
next
  case (Cons r rs)
  then show ?case
    by (auto split: sum.splits dest: boxes_loop_tallies)
qed

lemma boxes_loop_reports:
  "boxes_loop nm bs (ds, cc) = Inr (ds', cc')
     \<Longrightarrow> \<exists>new. ds' = ds @ new \<and> list_all2 (reports nm) new bs"
proof (induction bs arbitrary: ds cc)
  case Nil
  then show ?case by simp
next
  case (Cons b bs)
  from Cons.prems obtain d
    where d: "reports nm d b"
      and run: "boxes_loop nm bs (ds @ [d], increment cc (label d)) = Inr (ds', cc')"
    by (rule boxes_loop_Cons)
  from Cons.IH [OF run] obtain new
    where "ds' = (ds @ [d]) @ new" and "list_all2 (reports nm) new bs"
    by blast
  with d have "ds' = ds @ (d # new) \<and> list_all2 (reports nm) (d # new) (b # bs)"
    by simp
  then show ?case by blast
qed

lemma results_loop_single:
  assumes "results_loop [r] ([], Map.empty) = Inr (ds, cc)"
  shows "list_all2 (reports (names r)) ds (boxes r)"
proof -
  from assms have "boxes_loop (names r) (boxes r) ([], Map.empty) = Inr (ds, cc)"
    by (simp split: sum.splits)
  from boxes_loop_reports [OF this] show ?thesis by simp
qed

lemma detect_objects_success:
  assumes "detect_objects env b t s = (Inr r, s')"
  obtains m img r0 rest fs'
  where "model env = Some m" and "0 \<le> t" and "t \<le> 1" and "read_image env b = Inr img"
    and "m img t = Inr (r0 # rest)"
    and "results_loop (r0 # rest) ([], Map.empty) = Inr (detections r, summary r)"
    and "save env (plot r0) (path_join (OUTPUT_DIR env) ''last_annotated.jpg'') (fs s) = (None, fs')"
proof -
  from assms have "\<exists>m img r0 rest fs'.
      model env = Some m \<and> 0 \<le> t \<and> t \<le> 1 \<and> read_image env b = Inr img \<and>
      m img t = Inr (r0 # rest) \<and>
      results_loop (r0 # rest) ([], Map.empty) = Inr (detections r, summary r) \<and>
      save env (plot r0) (path_join (OUTPUT_DIR env) ''last_annotated.jpg'') (fs s) = (None, fs')"
    by (auto simp: detect_objects_def try_body_def Let_def simp del: results_loop.simps
             split: option.splits sum.splits prod.splits if_splits list.splits)
  then show thesis using that by blast
qed

lemma detect_objects_tallies:
  assumes "detect_objects env b t s = (Inr r, s')"
  shows "tallies (detections r) (summary r)"
  using assms
proof (rule detect_objects_success)
  fix r0 :: "'b result" and rest
  assume "results_loop (r0 # rest) ([], Map.empty) = Inr (detections r, summary r)"
  then show ?thesis using tallies_empty by (rule results_loop_tallies)
qed



lemma count_label_count_list: "count_label ds l = int (count_list (map label ds) l)"
  by (induction ds) (auto simp: count_label_def)

lemma sum_count_label:
  "(\<Sum>l\<in>label ` set ds. count_label ds l) = int (length ds)"
proof -
  have "(\<Sum>l\<in>set (map label ds). count_list (map label ds) l) = length (map label ds)"
    by (rule sum_count_set) simp_all
  then have "int (\<Sum>l\<in>label ` set ds. count_list (map label ds) l) = int (length ds)"
    by simp
  then show ?thesis
    by (simp add: count_label_count_list)
qed

lemma count_label_pos: "l \<in> label ` set ds \<Longrightarrow> 1 \<le> count_label ds l"
proof -
  assume "l \<in> label ` set ds"
  then have "filter (\<lambda>d. label d = l) ds \<noteq> []"
    by (auto simp: filter_empty_conv)
  then have "0 < length (filter (\<lambda>d. label d = l) ds)" by simp
  then show ?thesis by (simp add: count_label_def Suc_le_eq)
qed


lemma read_image_error:
  "read_image env b = Inl e \<Longrightarrow> \<exists>msg. e = Http (HTTPException 400 (''Invalid image file: '' @ msg))"
  by (auto simp: read_image_def split: sum.splits if_splits)

lemma try_body_cases:
  assumes "try_body env m b t s = (out, s')"
  obtains
    (range) "\<not> (0 \<le> t \<and> t \<le> 1)"
      and "out = Inl (Http (HTTPException 400 ''confidence_threshold must be between 0.0 and 1.0''))"
      and "s' = s"
  | (image) msg where "0 \<le> t" and "t \<le> 1"
      and "out = Inl (Http (HTTPException 400 (''Invalid image file: '' @ msg)))"
      and "s' = s"
  | (inference) img msg where "0 \<le> t" and "t \<le> 1" and "read_image env b = Inr img"
      and "m img t = Inl msg" and "out = Inl (Raised msg)"
      and "s' = s\<lparr>trace := trace s @ [Logged (Info_running_detection t), Detector_invoked img t]\<rparr>"
  | (lookup) img results k where "0 \<le> t" and "t \<le> 1" and "read_image env b = Inr img"
      and "m img t = Inr results" and "results_loop results ([], Map.empty) = Inl (KeyError k)"
      and "out = Inl (KeyError k)"
      and "s' = s\<lparr>trace := trace s @ [Logged (Info_running_detection t), Detector_invoked img t]\<rparr>"
  | (no_result) img where "0 \<le> t" and "t \<le> 1" and "read_image env b = Inr img"
      and "m img t = Inr []" and "out = Inl IndexError"
      and "s' = s\<lparr>trace := trace s @ [Logged (Info_running_detection t), Detector_invoked img t]\<rparr>"
  | (sink) img r0 rest dets cc msg fs' where "0 \<le> t" and "t \<le> 1" and "read_image env b = Inr img"
      and "m img t = Inr (r0 # rest)"
      and "results_loop (r0 # rest) ([], Map.empty) = Inr (dets, cc)"
      and "save env (plot r0) (path_join (OUTPUT_DIR env) ''last_annotated.jpg'') (fs s) = (Some msg, fs')"
      and "out = Inl (Raised msg)"
      and "s' = s\<lparr>trace := trace s @
                  [Logged (Info_running_detection t), Detector_invoked img t,
                   Sink_invoked (plot r0) (path_join (OUTPUT_DIR env) ''last_annotated.jpg'')],
                  fs := fs'\<rparr>"
  | (ok) img r0 rest dets cc fs' where "0 \<le> t" and "t \<le> 1" and "read_image env b = Inr img"
      and "m img t = Inr (r0 # rest)"
      and "results_loop (r0 # rest) ([], Map.empty) = Inr (dets, cc)"
      and "save env (plot r0) (path_join (OUTPUT_DIR env) ''last_annotated.jpg'') (fs s) = (None, fs')"
      and "out = Inr \<lparr>detections = dets, summary = cc\<rparr>"
      and "s' = s\<lparr>fs := fs',
                  trace := trace s @
                  [Logged (Info_running_detection t), Detector_invoked img t,
                   Sink_invoked (plot r0) (path_join (OUTPUT_DIR env) ''last_annotated.jpg''),
                   Logged (Info_annotated_saved (path_join (OUTPUT_DIR env) ''last_annotated.jpg'')),
                   Logged (Info_detection_complete (length dets))]\<rparr>"
proof (cases "0 \<le> t \<and> t \<le> 1")
  case False
  with assms range show thesis by (simp add: try_body_def)
next
  case t: True
  show thesis
  proof (cases "read_image env b")
    case (Inl e)
    with assms t image read_image_error [OF Inl] show thesis
      by (auto simp: try_body_def)
  next
    case img: (Inr img)
    let ?s1 = "s\<lparr>trace := trace s @ [Logged (Info_running_detection t), Detector_invoked img t]\<rparr>"
    show thesis
    proof (cases "m img t")
      case (Inl msg)
      with assms t img inference [of img msg] show thesis
        by (simp add: try_body_def)
    next
      case res: (Inr results)
      show thesis
      proof (cases "results_loop results ([], Map.empty)")
        case (Inl e)
        from results_loop_error [OF Inl] obtain k where "e = KeyError k" by blast
        with assms t img res Inl lookup [of img results k] show thesis
          by (simp add: try_body_def)
      next
        case (Inr acc)
        obtain dets cc where acc: "acc = (dets, cc)" by (cases acc)
        show thesis
        proof (cases results)
          case Nil
          with assms t img res Inr acc no_result [of img] show thesis
            by (simp add: try_body_def)
        next
          case (Cons r0 rest)
          let ?p = "path_join (OUTPUT_DIR env) ''last_annotated.jpg''"
          show thesis
          proof (cases "save env (plot r0) ?p (fs s)")
            case (Pair outcome fs')
            show thesis
            proof (cases outcome)
              case (Some msg)
              with Pair assms t img res Inr acc Cons sink [of img r0 rest dets cc msg fs']
              show thesis
                by (simp add: try_body_def Let_def del: results_loop.simps)
            next
              case None
              with Pair assms t img res Inr acc Cons ok [of img r0 rest dets cc fs']
              show thesis
                by (simp add: try_body_def Let_def del: results_loop.simps)
            qed
          qed
        qed
      qed
    qed
  qed
qed

lemma infer_run:
  assumes "model env = Some (infer forward_pass lookup render)"
    and "detect_objects env b t s = (Inr r, s')"
  obtains img candidates
  where "read_image env b = Inr img" and "forward_pass img = Inr candidates"
    and "list_all2 (reports lookup) (detections r) (filter (\<lambda>c. t \<le> conf c) candidates)"
  using assms(2)
proof (rule detect_objects_success)
  fix m img r0 rest
  assume m: "model env = Some m" and img: "read_image env b = Inr img"
    and res: "m img t = Inr (r0 # rest)"
    and loop: "results_loop (r0 # rest) ([], Map.empty) = Inr (detections r, summary r)"
  from m assms(1) have "m = infer forward_pass lookup render" by simp
  with res obtain candidates where c: "forward_pass img = Inr candidates"
    and r0: "r0 = \<lparr>boxes = filter (\<lambda>c. t \<le> conf c) candidates, names = lookup,
                   plot = render img (filter (\<lambda>c. t \<le> conf c) candidates)\<rparr>"
    and rest: "rest = []"
    by (auto simp: infer_def Let_def split: sum.splits)
  from loop rest have "list_all2 (reports (names r0)) (detections r) (boxes r0)"
    by (auto intro: results_loop_single)
  with r0 have "list_all2 (reports lookup) (detections r) (filter (\<lambda>c. t \<le> conf c) candidates)"
    by simp
  with img c show thesis by (rule that)
qed

section \<open>Claims\<close>

subsection \<open>Threshold validation\<close>

text \<open>
  The threshold check is the second step of \<open>detect_objects\<close>, after the check that the
  model is loaded (line 64): with no model, a request with the threshold 1.01 is answered
  503 and not 400.
\<close>

theorem threshold_out_of_range_counterexample:
  "\<not> (0 \<le> (101 / 100 :: real) \<and> (101 / 100 :: real) \<le> 1)
   \<and> detect_objects unloaded_env ''img'' (101 / 100) world0
       = (Inl (HTTPException 503 ''Model not loaded''), world0)
   \<and> fst (detect_objects unloaded_env ''img'' (101 / 100) world0)
       \<noteq> Inl (HTTPException 400 ''confidence_threshold must be between 0.0 and 1.0'')"
  by (simp add: detect_objects_def unloaded_env_def demo_env_def)

text \<open>
  Claim C1, as amended. A detection request whose \<open>confidence_threshold\<close> lies outside the
  closed interval from 0 to 1 fails without the Detector being invoked: with status 400 when the
  model is loaded, and with status 503 when it is not. The world is returned as it was, so
  the trace has gained no \<open>Detector_invoked\<close> event.
\<close>

theorem threshold_out_of_range:
  assumes "\<not> (0 \<le> t \<and> t \<le> 1)"
  shows "detect_objects env b t s =
           (Inl (case model env of
                   None \<Rightarrow> HTTPException 503 ''Model not loaded''
                 | Some m \<Rightarrow> HTTPException 400 ''confidence_threshold must be between 0.0 and 1.0''),
            s)"
  using assms by (auto simp: detect_objects_def try_body_def split: option.splits)

theorem threshold_out_of_range_witness:
  "\<not> (0 \<le> (101 / 100 :: real) \<and> (101 / 100 :: real) \<le> 1)
   \<and> detect_objects demo_env ''img'' (101 / 100) world0
       = (Inl (HTTPException 400 ''confidence_threshold must be between 0.0 and 1.0''), world0)"
proof -
  have h: "\<not> (0 \<le> (101 / 100 :: real) \<and> (101 / 100 :: real) \<le> 1)" by simp
  show ?thesis
    using h threshold_out_of_range [OF h, of demo_env "''img''" world0]
    by (simp add: demo_env_def)
qed

subsection \<open>Failure of the Artifact Sink\<close>

text \<open>
  \<open>annotated_pil.save(output_path)\<close> is inside the \<open>try\<close> block and has no handler of its
  own: when the directory cannot be written, the request that has computed two detections
  is answered 500 and the detections are not returned.
\<close>

theorem sink_failure_counterexample:
  "detect_objects readonly_env ''img'' (1 / 4) world0 =
     (Inl (HTTPException 500 ''Detection failed: Permission denied''),
      \<lparr>fs = Map.empty,
       trace = [Logged (Info_running_detection (1 / 4)),
                Detector_invoked ''img'' (1 / 4),
                Sink_invoked 2 ''/app/output/last_annotated.jpg'',
                Logged (Error_during_detection ''Permission denied'')]\<rparr>)"
  by (simp add: demo_defs handler_defs numeral_2_eq_2)

text \<open>
  Nothing is promised about the stored file after a failed write: on a full disk the
  artifact of the previous request is lost.
\<close>

lemma sink_failure_may_lose_artifact:
  "fs demo_world1 ''/app/output/last_annotated.jpg'' = Some 2
   \<and> fst (detect_objects full_disk_env ''img'' (1 / 4) demo_world1)
       = Inl (HTTPException 500 ''Detection failed: No space left on device'')
   \<and> fs (snd (detect_objects full_disk_env ''img'' (1 / 4) demo_world1))
       ''/app/output/last_annotated.jpg'' = None"
  by (simp add: full_disk_env_def demo_defs handler_defs)

text \<open>
  Claim C2, as amended. For every request that reaches the Artifact Sink step, a failure to
  write the annotated image fails the request with status 500 and the detail
  \<open>Detection failed:\<close> followed by the cause: the detections and the summary already
  computed are not returned. The failure is logged as an error, the last event of the
  request.
\<close>

theorem sink_failure_fails_request:
  assumes "detect_objects env b t s = (r, s')"
    and "Sink_invoked a p \<in> set (new_events s s')"
    and "fst (save env a p (fs s)) = Some msg"
  shows "r = Inl (HTTPException 500 (''Detection failed: '' @ msg))
         \<and> last (trace s') = Logged (Error_during_detection msg)"
proof (cases "model env")
  case None
  with assms show ?thesis by (simp add: detect_objects_def new_events_def)
next
  case (Some m)
  obtain out s1 where tb: "try_body env m b t s = (out, s1)"
    by (cases "try_body env m b t s")
  from tb show ?thesis
  proof (cases rule: try_body_cases)
    case range
    with assms Some tb show ?thesis by (simp add: detect_objects_def new_events_def)
  next
    case (image msg)
    with assms Some tb show ?thesis by (simp add: detect_objects_def new_events_def)
  next
    case (inference img msg)
    with assms Some tb show ?thesis by (auto simp: detect_objects_def new_events_def)
  next
    case (lookup img results k)
    with assms Some tb show ?thesis by (auto simp: detect_objects_def new_events_def)
  next
    case (no_result img)
    with assms Some tb show ?thesis by (auto simp: detect_objects_def new_events_def)
  next
    case (sink img r0 rest dets cc msg')
    with assms Some tb show ?thesis by (auto simp: detect_objects_def new_events_def)
  next
    case (ok img r0 rest dets cc fs')
    with assms Some tb show ?thesis by (auto simp: detect_objects_def new_events_def)
  qed
qed

theorem sink_failure_fails_request_witness:
  "detect_objects readonly_env ''img'' (1 / 4) world0 =
     (Inl (HTTPException 500 ''Detection failed: Permission denied''),
      \<lparr>fs = Map.empty,
       trace = [Logged (Info_running_detection (1 / 4)),
                Detector_invoked ''img'' (1 / 4),
                Sink_invoked 2 ''/app/output/last_annotated.jpg'',
                Logged (Error_during_detection ''Permission denied'')]\<rparr>)
   \<and> Sink_invoked 2 ''/app/output/last_annotated.jpg''
       \<in> set (new_events world0
            \<lparr>fs = Map.empty,
             trace = [Logged (Info_running_detection (1 / 4)),
                      Detector_invoked ''img'' (1 / 4),
                      Sink_invoked 2 ''/app/output/last_annotated.jpg'',
                      Logged (Error_during_detection ''Permission denied'')]\<rparr>)
   \<and> fst (save readonly_env 2 ''/app/output/last_annotated.jpg'' (fs world0))
       = Some ''Permission denied''
   \<and> last [Logged (Info_running_detection (1 / 4)),
            Detector_invoked ''img'' (1 / 4),
            Sink_invoked (2 :: nat) ''/app/output/last_annotated.jpg'',
            Logged (Error_during_detection ''Permission denied'')]
       = (Logged (Error_during_detection ''Permission denied'') :: (string, nat) event)"
proof -
  let ?s' = "\<lparr>fs = Map.empty,
       trace = [Logged (Info_running_detection (1 / 4)),
                Detector_invoked ''img'' (1 / 4),
                Sink_invoked (2 :: nat) ''/app/output/last_annotated.jpg'',
                Logged (Error_during_detection ''Permission denied'')]\<rparr>
       :: (string, nat, string \<rightharpoonup> nat) world"
  have run: "detect_objects readonly_env ''img'' (1 / 4) world0 =
     (Inl (HTTPException 500 ''Detection failed: Permission denied''), ?s')"
    by (simp add: demo_defs handler_defs numeral_2_eq_2)
  have ev: "Sink_invoked 2 ''/app/output/last_annotated.jpg'' \<in> set (new_events world0 ?s')"
    by (simp add: new_events_def world0_def)
  have sv: "fst (save readonly_env 2 ''/app/output/last_annotated.jpg'' (fs world0))
              = Some ''Permission denied''"
    by (simp add: readonly_env_def demo_env_def)
  from sink_failure_fails_request [OF run ev sv] run ev sv show ?thesis by simp
qed

subsection \<open>Health check\<close>

text \<open>\<open>health_check\<close> does not read \<open>model\<close>: with no model loaded it answers \<open>ok\<close>.\<close>

theorem health_check_counterexample:
  "model unloaded_env = None
   \<and> health_check unloaded_env world0 = ([(''status'', ''ok'')], world0)"
  by (simp add: unloaded_env_def demo_env_def health_check_def)

text \<open>
  Claim C3, as amended. The health-check endpoint always reports the status \<open>ok\<close>, whether
  or not the Detector is loaded; it changes nothing in the world and does not depend on the
  model or on the detection pipeline.
\<close>

theorem health_check_always_ok:
  "fst (health_check env s) = [(''status'', ''ok'')]
   \<and> snd (health_check env s) = s
   \<and> health_check (env\<lparr>model := m\<rparr>) s = health_check env s"
  by (simp add: health_check_def)

subsection \<open>Default threshold\<close>




subsection \<open>The summary\<close>

text \<open>
  Claim C5. For every successful request and every label present in the summary, the
  summary maps the label to the number of detections of the same response whose \<open>label\<close>
  field is that label. The starting world \<open>s\<close> is arbitrary: whatever earlier requests have
  left behind, the summary is counted from the detections of this response alone.
\<close>

theorem summary_counts_labels:
  assumes "detect_objects env b t s = (Inr r, s')"
    and "l \<in> dom (summary r)"
  shows "summary r l = Some (count_label (detections r) l)"
proof -
  from assms(1) have "tallies (detections r) (summary r)"
    by (rule detect_objects_tallies)
  with assms(2) show ?thesis
    by (auto simp: tallies_def dom_def split: if_splits)
qed

theorem summary_counts_labels_witness:
  "detect_objects demo_env ''img'' (1 / 4) world0 = (Inr demo_response, demo_world1)
   \<and> ''dog'' \<in> dom (summary demo_response)
   \<and> summary demo_response ''dog'' = Some 1
   \<and> count_label (detections demo_response) ''dog'' = 1"
proof -
  have d: "''dog'' \<in> dom (summary demo_response)"
    by (simp add: demo_response_def)
  from summary_counts_labels [OF demo_run d] demo_run d show ?thesis
    by (simp add: demo_response_def demo_detections_def count_label_def)
qed

text \<open>
  Claim C10. For every successful response, the keys of the summary are exactly the labels
  that occur in the detections, every count is at least 1 (so no key maps to 0), and the
  counts add up to the number of detections.
\<close>

theorem summary_keys_and_total:
  assumes "detect_objects env b t s = (Inr r, s')"
  shows "dom (summary r) = label ` set (detections r)
         \<and> (\<forall>l c. summary r l = Some c \<longrightarrow> 1 \<le> c)
         \<and> (\<Sum>l\<in>dom (summary r). the (summary r l)) = int (length (detections r))"
proof -
  from assms have t: "tallies (detections r) (summary r)"
    by (rule detect_objects_tallies)
  then have keys: "dom (summary r) = label ` set (detections r)"
    by (auto simp: tallies_def dom_def split: if_splits)
  have pos: "\<forall>l c. summary r l = Some c \<longrightarrow> 1 \<le> c"
    using t count_label_pos by (auto simp: tallies_def split: if_splits)
  have "(\<Sum>l\<in>label ` set (detections r). the (summary r l))
          = (\<Sum>l\<in>label ` set (detections r). count_label (detections r) l)"
    using t by (intro sum.cong) (auto simp: tallies_def)
  with keys have "(\<Sum>l\<in>dom (summary r). the (summary r l)) = int (length (detections r))"
    by (simp add: sum_count_label)
  with keys pos show ?thesis by blast
qed

theorem summary_keys_and_total_witness:
  "detect_objects demo_env ''img'' (1 / 4) world0 = (Inr demo_response, demo_world1)
   \<and> dom (summary demo_response) = {''person'', ''dog''}
   \<and> label ` set (detections demo_response) = {''person'', ''dog''}
   \<and> summary demo_response ''person'' = Some 1
   \<and> (1 :: int) \<le> 1
   \<and> (\<Sum>l\<in>dom (summary demo_response). the (summary demo_response l)) = 2
   \<and> length (detections demo_response) = 2"
proof -
  have p: "summary demo_response ''person'' = Some 1"
    by (simp add: demo_response_def)
  have n: "length (detections demo_response) = 2"
    by (simp add: demo_response_def demo_detections_def)
  have l: "label ` set (detections demo_response) = {''person'', ''dog''}"
    by (simp add: demo_response_def demo_detections_def)
  have d: "summary demo_response ''dog'' = Some 1"
    by (simp add: demo_response_def)
  from summary_keys_and_total [OF demo_run] p d n l demo_run show ?thesis
    by simp
qed

subsection \<open>Failed requests and the Artifact Sink\<close>

text \<open>
  Claim C9. A request that fails with status 400 (threshold out of range, or image that
  cannot be decoded) or with status 503 (model not loaded) never invokes the Artifact Sink:
  the file system is left as it was, and the request adds no event to the trace, so in
  particular no \<open>Sink_invoked\<close> event.
\<close>

theorem failed_request_leaves_artifact:
  assumes "detect_objects env b t s = (Inl h, s')"
    and "status_code h = 400 \<or> status_code h = 503"
  shows "fs s' = fs s \<and> new_events s s' = []"
proof (cases "model env")
  case None
  with assms show ?thesis by (simp add: detect_objects_def new_events_def)
next
  case (Some m)
  obtain out s1 where tb: "try_body env m b t s = (out, s1)"
    by (cases "try_body env m b t s")
  from tb show ?thesis
  proof (cases rule: try_body_cases)
    case range
    with assms Some tb show ?thesis by (simp add: detect_objects_def new_events_def)
  next
    case (image msg)
    with assms Some tb show ?thesis by (simp add: detect_objects_def new_events_def)
  next
    case (inference img msg)
    with assms Some tb show ?thesis by (auto simp: detect_objects_def)
  next
    case (lookup img results k)
    with assms Some tb show ?thesis by (auto simp: detect_objects_def)
  next
    case (no_result img)
    with assms Some tb show ?thesis by (auto simp: detect_objects_def)
  next
    case (sink img r0 rest dets cc msg')
    with assms Some tb show ?thesis by (auto simp: detect_objects_def)
  next
    case (ok img r0 rest dets cc fs')
    with assms Some tb show ?thesis by (auto simp: detect_objects_def)
  qed
qed

theorem failed_request_leaves_artifact_witness:
  "detect_objects demo_env [] (1 / 4) demo_world1
     = (Inl (HTTPException 400 ''Invalid image file: cannot identify image file''), demo_world1)
   \<and> (status_code (HTTPException 400 ''Invalid image file: cannot identify image file'') = 400
        \<or> status_code (HTTPException 400 ''Invalid image file: cannot identify image file'') = 503)
   \<and> fs demo_world1 = fs demo_world1 \<and> new_events demo_world1 demo_world1 = []"
proof -
  have run: "detect_objects demo_env [] (1 / 4) demo_world1
     = (Inl (HTTPException 400 ''Invalid image file: cannot identify image file''), demo_world1)"
    by (simp add: demo_defs handler_defs)
  have st: "status_code (HTTPException 400 ''Invalid image file: cannot identify image file'') = 400
        \<or> status_code (HTTPException 400 ''Invalid image file: cannot identify image file'') = 503"
    by simp
  from failed_request_leaves_artifact [OF run st] run st show ?thesis by simp
qed


subsection \<open>With the Detector of the specification\<close>




text \<open>
  Claim C6. With the Detector of the specification as the model, the number of detections
  returned is antitone in the threshold: of two successful runs on the same image bytes with
  thresholds \<open>t1 \<le> t2\<close>, the run with \<open>t1\<close> returns at least as many detections as the run
  with \<open>t2\<close>. The handler itself drops and adds nothing: it returns one detection for each
  box the model returns.
\<close>

theorem detections_antitone_in_threshold:
  assumes "model env = Some (infer forward_pass lookup render)"
    and "t1 \<le> t2"
    and "detect_objects env b t1 s = (Inr r1, s1)"
    and "detect_objects env b t2 s' = (Inr r2, s2)"
  shows "length (detections r2) \<le> length (detections r1)"
proof -
  from assms(1,3) obtain img candidates
    where 1: "read_image env b = Inr img" "forward_pass img = Inr candidates"
      "list_all2 (reports lookup) (detections r1) (filter (\<lambda>c. t1 \<le> conf c) candidates)"
    by (rule infer_run)
  from assms(1,4) obtain img' candidates'
    where 2: "read_image env b = Inr img'" "forward_pass img' = Inr candidates'"
      "list_all2 (reports lookup) (detections r2) (filter (\<lambda>c. t2 \<le> conf c) candidates')"
    by (rule infer_run)
  from 1 2 have same: "candidates' = candidates" by simp
  from 1(3) have l1: "length (detections r1) = length (filter (\<lambda>c. t1 \<le> conf c) candidates)"
    by (rule list_all2_lengthD)
  from 2(3) same
  have l2: "length (detections r2) = length (filter (\<lambda>c. t2 \<le> conf c) candidates)"
    by (simp add: list_all2_lengthD)
  have "filter (\<lambda>c. t2 \<le> conf c) candidates
          = filter (\<lambda>c. t2 \<le> conf c) (filter (\<lambda>c. t1 \<le> conf c) candidates)"
    using assms(2) by (auto intro: filter_cong)
  then have "length (filter (\<lambda>c. t2 \<le> conf c) candidates)
               \<le> length (filter (\<lambda>c. t1 \<le> conf c) candidates)"
    by (metis length_filter_le)
  with l1 l2 show ?thesis by simp
qed

theorem detections_antitone_in_threshold_witness:
  "model demo_env = Some (infer (\<lambda>img. Inr demo_candidates) demo_names (\<lambda>img kept. length kept))
   \<and> (1 / 4 :: real) \<le> 1 / 2
   \<and> detect_objects demo_env ''img'' (1 / 4) world0 = (Inr demo_response, demo_world1)
   \<and> fst (detect_objects demo_env ''img'' (1 / 2) world0)
       = Inr \<lparr>detections = [\<lparr>box = [10, 20, 110, 220], label = ''person'', score = 9 / 10\<rparr>],
              summary = [''person'' \<mapsto> 1]\<rparr>
   \<and> length [\<lparr>box = [10, 20, 110, 220], label = ''person'', score = 9 / 10\<rparr>]
       \<le> length (detections demo_response)"
proof -
  let ?r2 = "\<lparr>detections = [\<lparr>box = [10, 20, 110, 220], label = ''person'', score = 9 / 10\<rparr>],
              summary = [''person'' \<mapsto> 1]\<rparr>"
  have m: "model demo_env = Some (infer (\<lambda>img. Inr demo_candidates) demo_names (\<lambda>img kept. length kept))"
    by (simp add: demo_env_def demo_model_def)
  have le: "(1 / 4 :: real) \<le> 1 / 2" by simp
  have f: "fst (detect_objects demo_env ''img'' (1 / 2) world0) = Inr ?r2"
    by (simp add: demo_defs handler_defs)
  then have run2: "detect_objects demo_env ''img'' (1 / 2) world0
                     = (Inr ?r2, snd (detect_objects demo_env ''img'' (1 / 2) world0))"
    by (metis prod.collapse)
  from detections_antitone_in_threshold [OF m le demo_run run2] m le demo_run f
  show ?thesis by simp
qed

end
